theory Spec2Isabelle
  imports Main
begin

section \<open>Python values\<close>

text \<open>
  The client in \<^verbatim>\<open>pyiptmnet/api.py\<close> passes around untyped Python objects: JSON data
  (\<^verbatim>\<open>None\<close>, booleans, integers, strings, lists, dicts), pandas DataFrames, and, in
  three of its endpoints, the built-in function \<^verbatim>\<open>id\<close> used as a dict key. The type
  \<open>pyval\<close> is that universe. A dict is an association list in insertion order, a
  DataFrame its column labels and its rows. Floats are not part of the universe.
\<close>

datatype error =
    HTTPError int
  | ValueError
  | TypeError
  | JSONDecodeError
  | ParserError
  | ConnectionError

datatype pyval =
    PNone
  | PBool bool
  | PInt int
  | PStr string
  | PList "pyval list"
  | PDict "(pyval \<times> pyval) list"
  | PTable "string list" "pyval list list"
  | PBuiltin string

text \<open>
  The truth value of an object, as \<^verbatim>\<open>if x:\<close> computes it. Empty containers, zero,
  the empty string, \<^verbatim>\<open>False\<close> and \<^verbatim>\<open>None\<close> are false. A pandas DataFrame has no truth
  value: \<^verbatim>\<open>DataFrame.__bool__\<close> raises \<^verbatim>\<open>ValueError\<close> (``The truth value of a DataFrame
  is ambiguous''), whatever its size.
\<close>

fun truthy :: "pyval \<Rightarrow> error + bool" where
  "truthy PNone = Inr False"
| "truthy (PBool b) = Inr b"
| "truthy (PInt i) = Inr (i \<noteq> 0)"
| "truthy (PStr s) = Inr (s \<noteq> [])"
| "truthy (PList xs) = Inr (xs \<noteq> [])"
| "truthy (PDict kvs) = Inr (kvs \<noteq> [])"
| "truthy (PTable cols rows) = Inl ValueError"
| "truthy (PBuiltin n) = Inr True"

text \<open>Objects that can be dict keys.\<close>

fun hashable :: "pyval \<Rightarrow> bool" where
  "hashable (PList xs) = False"
| "hashable (PDict kvs) = False"
| "hashable (PTable cols rows) = False"
| "hashable v = True"

text \<open>
  Two keys are the same dict key when they are equal under \<^verbatim>\<open>==\<close>; among the hashable
  values of the universe that is equality, except that \<^verbatim>\<open>True\<close> is \<^verbatim>\<open>1\<close> and \<^verbatim>\<open>False\<close>
  is \<^verbatim>\<open>0\<close>.
\<close>

fun key_norm :: "pyval \<Rightarrow> pyval" where
  "key_norm (PBool b) = PInt (if b then 1 else 0)"
| "key_norm v = v"

definition key_eq :: "pyval \<Rightarrow> pyval \<Rightarrow> bool" where
  "key_eq a b = (key_norm a = key_norm b)"

text \<open>
  \<^verbatim>\<open>d[k] = v\<close>: an existing key keeps its place (and its key object) and takes the new
  value; a new key goes to the end.
\<close>

fun dict_setitem :: "(pyval \<times> pyval) list \<Rightarrow> pyval \<Rightarrow> pyval \<Rightarrow> (pyval \<times> pyval) list" where
  "dict_setitem [] k v = [(k, v)]"
| "dict_setitem ((k', v') # kvs) k v =
     (if key_eq k' k then (k', v) # kvs else (k', v') # dict_setitem kvs k v)"


text \<open>Iterating an object: a dict yields its keys, a string its characters, a DataFrame its
  column labels; scalars are not iterable.\<close>

fun py_iter :: "pyval \<Rightarrow> error + pyval list" where
  "py_iter (PList xs) = Inr xs"
| "py_iter (PDict kvs) = Inr (map fst kvs)"
| "py_iter (PStr s) = Inr (map (\<lambda>c. PStr [c]) s)"
| "py_iter (PTable cols rows) = Inr (map PStr cols)"
| "py_iter v = Inl TypeError"

text \<open>
  The pandas operations that \<^verbatim>\<open>__get_data\<close> can call on DataFrames are parameters of the
  model: \<^verbatim>\<open>pd.concat(objs, ignore_index=True)\<close>, and the mapping view of a DataFrame
  (its \<^verbatim>\<open>keys()\<close> with \<^verbatim>\<open>__getitem__\<close>) that \<^verbatim>\<open>dict.update\<close> reads.
\<close>

record pandas =
  pd_concat :: "pyval list \<Rightarrow> error + pyval"
  frame_items :: "string list \<Rightarrow> pyval list list \<Rightarrow> (pyval \<times> pyval) list"

text \<open>
  \<^verbatim>\<open>merged.update(other)\<close>. A dict (or any object with \<^verbatim>\<open>keys()\<close>) is merged item by item.
  Anything else is read as a sequence of key/value pairs: each element must be iterable
  (\<^verbatim>\<open>TypeError\<close>), of length two (\<^verbatim>\<open>ValueError\<close>), with a hashable first component
  (\<^verbatim>\<open>TypeError\<close>).
\<close>

fun merge_from_seq2 :: "(pyval \<times> pyval) list \<Rightarrow> pyval list \<Rightarrow> error + (pyval \<times> pyval) list" where
  "merge_from_seq2 merged [] = Inr merged"
| "merge_from_seq2 merged (item # items) =
     (case py_iter item of
        Inl e \<Rightarrow> Inl e
      | Inr [k, v] \<Rightarrow>
          if hashable k then merge_from_seq2 (dict_setitem merged k v) items else Inl TypeError
      | Inr _ \<Rightarrow> Inl ValueError)"

definition merge_items :: "(pyval \<times> pyval) list \<Rightarrow> (pyval \<times> pyval) list \<Rightarrow> (pyval \<times> pyval) list" where
  "merge_items merged kvs = fold (\<lambda>(k, v) m. dict_setitem m k v) kvs merged"

fun dict_update :: "pandas \<Rightarrow> (pyval \<times> pyval) list \<Rightarrow> pyval \<Rightarrow> error + (pyval \<times> pyval) list" where
  "dict_update pd merged (PDict kvs) = Inr (merge_items merged kvs)"
| "dict_update pd merged (PTable cols rows) = Inr (merge_items merged (frame_items pd cols rows))"
| "dict_update pd merged other =
     (case py_iter other of Inl e \<Rightarrow> Inl e | Inr items \<Rightarrow> merge_from_seq2 merged items)"

text \<open>\<^verbatim>\<open>range(start, stop, step)\<close> for a positive step, and the slice \<^verbatim>\<open>xs[i:j]\<close> for
  \<open>0 \<le> i \<le> j\<close> (a slice is clipped to the list, it never raises).\<close>

definition py_range :: "nat \<Rightarrow> nat \<Rightarrow> nat \<Rightarrow> nat list" where
  "py_range start stop step = map (\<lambda>k. start + k * step) [0..<(stop - start + step - 1) div step]"

definition slice :: "'a list \<Rightarrow> nat \<Rightarrow> nat \<Rightarrow> 'a list" where
  "slice xs i j = take (j - i) (drop i xs)"

section \<open>The batch helper \<^verbatim>\<open>__get_data\<close>\<close>

text \<open>
  \<^verbatim>\<open>get_data_func\<close> performs a network round trip, so it is a function on a world \<open>'w\<close>
  (whatever the remote service and the transport are): it returns the value it returned
  or the exception it raised, and the world after the call.
\<close>

type_synonym 'w invoker = "pyval list \<Rightarrow> pyval \<Rightarrow> 'w \<Rightarrow> (error + pyval) \<times> 'w"

text \<open>
  The loop \<^verbatim>\<open>for i in range(0, len(sites), 1000)\<close>, over the list of the indices still to
  visit. An exception of the call, or of the truth test of its result, leaves the loop.
\<close>

fun batch_loop ::
  "'w invoker \<Rightarrow> pyval \<Rightarrow> pyval list \<Rightarrow> nat list \<Rightarrow> pyval list \<Rightarrow> 'w \<Rightarrow> (error + pyval list) \<times> 'w"
where
  "batch_loop get_data_func d sites [] all_chunks w = (Inr all_chunks, w)"
| "batch_loop get_data_func d sites (i # is) all_chunks w =
     (let chunk = slice sites i (i + 1000) in
      case get_data_func chunk d w of
        (Inl e, w') \<Rightarrow> (Inl e, w')
      | (Inr chunk_result, w') \<Rightarrow>
          (case truthy chunk_result of
             Inl e \<Rightarrow> (Inl e, w')
           | Inr b \<Rightarrow>
               batch_loop get_data_func d sites is
                 (if b then all_chunks @ [chunk_result] else all_chunks) w'))"

text \<open>The loop of the branch \<^verbatim>\<open>dict is True\<close>: lists are spliced in, anything else is
  appended.\<close>

fun flatten_loop :: "pyval list \<Rightarrow> pyval list \<Rightarrow> pyval list" where
  "flatten_loop [] flattened = flattened"
| "flatten_loop (chunk # chunks) flattened =
     flatten_loop chunks
       (case chunk of PList xs \<Rightarrow> flattened @ xs | _ \<Rightarrow> flattened @ [chunk])"

text \<open>The loop \<^verbatim>\<open>for chunk in all_chunks: merged.update(chunk)\<close>.\<close>

fun update_loop :: "pandas \<Rightarrow> (pyval \<times> pyval) list \<Rightarrow> pyval list \<Rightarrow> error + (pyval \<times> pyval) list" where
  "update_loop pd merged [] = Inr merged"
| "update_loop pd merged (chunk # chunks) =
     (case dict_update pd merged chunk of
        Inl e \<Rightarrow> Inl e
      | Inr merged' \<Rightarrow> update_loop pd merged' chunks)"

text \<open>
  Everything after the request loop: the early return for an empty \<^verbatim>\<open>all_chunks\<close>
  (\<^verbatim>\<open>[] if dict else pd.DataFrame()\<close>), the JSON branch, and the dispatch on the type of
  \<^verbatim>\<open>all_chunks[0]\<close>.
\<close>

definition merge_results :: "pandas \<Rightarrow> pyval list \<Rightarrow> pyval \<Rightarrow> error + pyval" where
  "merge_results pd all_chunks d =
     (case all_chunks of
        [] \<Rightarrow> (case truthy d of Inl e \<Rightarrow> Inl e
               | Inr b \<Rightarrow> Inr (if b then PList [] else PTable [] []))
      | first # rest \<Rightarrow>
          if d = PBool True then Inr (PList (flatten_loop all_chunks []))
          else (case first of
                  PTable cols rows \<Rightarrow> pd_concat pd all_chunks
                | PDict kvs \<Rightarrow>
                    (case update_loop pd [] all_chunks of
                       Inl e \<Rightarrow> Inl e
                     | Inr merged \<Rightarrow> Inr (PDict merged))
                | _ \<Rightarrow> Inr (PList all_chunks)))"

definition get_data :: "pandas \<Rightarrow> pyval list \<Rightarrow> 'w invoker \<Rightarrow> pyval \<Rightarrow> 'w \<Rightarrow> (error + pyval) \<times> 'w" where
  "get_data pd sites get_data_func d w =
     (if length sites \<le> 1000 then get_data_func sites d w
      else
        (case batch_loop get_data_func d sites (py_range 0 (length sites) 1000) [] w of
           (Inl e, w') \<Rightarrow> (Inl e, w')
         | (Inr all_chunks, w') \<Rightarrow> (merge_results pd all_chunks d, w')))"

section \<open>Observing the calls\<close>

text \<open>
  To speak about which calls a batch makes, an invoker is wrapped so that the world also
  carries a log: every call appends the chunk it was given and what it returned or
  raised. The wrapper changes nothing else.
\<close>

type_synonym call = "pyval list \<times> (error + pyval)"

definition logged :: "'w invoker \<Rightarrow> ('w \<times> call list) invoker" where
  "logged f chunk d = (\<lambda>(w, log).
     case f chunk d w of (r, w') \<Rightarrow> (r, (w', log @ [(chunk, r)])))"

text \<open>The chunks of a list of sites, as the loop cuts them.\<close>

definition chunks_of :: "pyval list \<Rightarrow> pyval list list" where
  "chunks_of sites = map (\<lambda>i. slice sites i (i + 1000)) (py_range 0 (length sites) 1000)"

text \<open>A scripted service for examples: each call returns the next prepared outcome.\<close>

fun scripted :: "(error + pyval) list invoker" where
  "scripted chunk d [] = (Inl ConnectionError, [])"
| "scripted chunk d (r # rs) = (r, rs)"

definition site :: pyval where
  "site = PDict [(PStr ''substrate_ac'', PStr ''P27361''),
                 (PStr ''site_residue'', PStr ''Y''),
                 (PStr ''site_position'', PStr ''187'')]"

text \<open>
  What the loop body does with one logged call: the exception it raises there (that of
  the call itself, or that of the truth test of the call's result), if any.
\<close>

definition call_error :: "call \<Rightarrow> error option" where
  "call_error c =
     (case snd c of
        Inl e \<Rightarrow> Some e
      | Inr v \<Rightarrow> (case truthy v of Inl e \<Rightarrow> Some e | Inr b \<Rightarrow> None))"

definition call_ok :: "call \<Rightarrow> bool" where
  "call_ok c = (call_error c = None)"

text \<open>The retained results of a log: the values returned by its calls that are true, in
  the order of the calls.\<close>

fun retained :: "call list \<Rightarrow> pyval list" where
  "retained [] = []"
| "retained (c # cs) =
     (case snd c of
        Inr v \<Rightarrow> if truthy v = Inr True then v # retained cs else retained cs
      | Inl e \<Rightarrow> retained cs)"

text \<open>The items of a dict, and a dict whose keys are pairwise different dict keys (as
  every Python dict is).\<close>

fun items :: "pyval \<Rightarrow> (pyval \<times> pyval) list" where
  "items (PDict kvs) = kvs"
| "items v = []"

fun is_dict :: "pyval \<Rightarrow> bool" where
  "is_dict (PDict kvs) = True"
| "is_dict v = False"

fun is_table :: "pyval \<Rightarrow> bool" where
  "is_table (PTable cols rows) = True"
| "is_table v = False"


text \<open>
  A stand-in for pandas in examples, for frames that share their columns: \<^verbatim>\<open>concat\<close>
  appends the rows of the frames and rejects anything that is not a frame, and a frame
  read as a mapping takes each column label to the values of that column.
\<close>

definition same_columns_pandas :: pandas where
  "same_columns_pandas =
     \<lparr> pd_concat = (\<lambda>objs.
          if list_all is_table objs
          then Inr (PTable (case objs of PTable cols rows # _ \<Rightarrow> cols | _ \<Rightarrow> [])
                      (concat (map (\<lambda>v. case v of PTable cols rows \<Rightarrow> rows | _ \<Rightarrow> []) objs)))
          else Inl TypeError),
       frame_items = (\<lambda>cols rows.
          map (\<lambda>(j, c). (PStr c, PList (map (\<lambda>r. r ! j) rows))) (enumerate 0 cols)) \<rparr>"

section \<open>The endpoint functions\<close>

text \<open>
  An endpoint function builds one HTTP request, sends it, and turns the response into a
  value. The transport (\<^verbatim>\<open>requests.get\<close>, \<^verbatim>\<open>requests.post\<close>) is a function on the world;
  the parsers and the serialiser it relies on (\<^verbatim>\<open>json.loads\<close>, \<^verbatim>\<open>pandas.read_csv\<close>,
  \<^verbatim>\<open>json.dumps\<close>) and the two module globals are the environment. The selected version
  is kept as the text that the f-string of \<^verbatim>\<open>__get_base_url\<close> prints for it, and the
  arguments of \<^verbatim>\<open>search\<close> that are enumeration members are given by their \<^verbatim>\<open>.value\<close>.
\<close>

record request =
  meth :: string
  url :: string
  accept :: "string option"
  params :: pyval
  payload :: "string option"

record response =
  status_code :: int
  resp_text :: string

record env =
  host_url :: string
  selected_version :: "string option"
  json_loads :: "string \<Rightarrow> error + pyval"
  json_dumps :: "pyval \<Rightarrow> error + string"
  read_csv :: "string \<Rightarrow> error + pyval"

type_synonym 'w transport = "request \<Rightarrow> 'w \<Rightarrow> (error + response) \<times> 'w"

definition get_base_url :: "env \<Rightarrow> string" where
  "get_base_url env =
     (case selected_version env of
        None \<Rightarrow> host_url env
      | Some v \<Rightarrow> host_url env @ ''/'' @ v)"

definition to_dataframe_from_json :: "env \<Rightarrow> string \<Rightarrow> error + pyval" where
  "to_dataframe_from_json env txt = read_csv env txt"

text \<open>
  The \<^verbatim>\<open>else\<close> branch of every endpoint: \<^verbatim>\<open>result.raise_for_status()\<close> raises for a status
  from 400 to 599; for any other status it returns, and the endpoint function ends
  without a \<^verbatim>\<open>return\<close>, that is with \<^verbatim>\<open>None\<close>.
\<close>

definition raise_for_status :: "response \<Rightarrow> error + pyval" where
  "raise_for_status result =
     (if 400 \<le> status_code result \<and> status_code result < 600
      then Inl (HTTPError (status_code result)) else Inr PNone)"

definition search ::
  "env \<Rightarrow> 'w transport \<Rightarrow> string \<Rightarrow> pyval \<Rightarrow> pyval \<Rightarrow> pyval list option \<Rightarrow> pyval list option \<Rightarrow>
   pyval \<Rightarrow> 'w \<Rightarrow> (error + pyval) \<times> 'w"
where
  "search env send search_term term_type role ptm_list organism_list d w =
     (let ptm_list' = (case ptm_list of None \<Rightarrow> [] | Some ps \<Rightarrow> ps);
          organism_list' = (case organism_list of None \<Rightarrow> [] | Some os \<Rightarrow> os);
          data = PDict [(PStr ''search_term'', PStr search_term),
                        (PStr ''term_type'', term_type),
                        (PStr ''ptm_type'', PList ptm_list'),
                        (PStr ''role'', role),
                        (PStr ''organism'', PList organism_list')];
          headers = (if d = PBool True then ''application/json'' else ''text/plain'')
      in case send \<lparr> meth = ''GET'', url = get_base_url env @ ''/search'',
                       accept = Some headers, params = data, payload = None \<rparr> w of
           (Inl e, w') \<Rightarrow> (Inl e, w')
         | (Inr result, w') \<Rightarrow>
             (if status_code result = 200 then
                (if resp_text result = []
                 then Inr (PDict [(PBuiltin ''id'', PStr ''No data found for the given ID.'')])
                 else if d = PBool True then json_loads env (resp_text result)
                 else to_dataframe_from_json env (resp_text result))
              else raise_for_status result, w'))"

definition get_info :: "env \<Rightarrow> 'w transport \<Rightarrow> string \<Rightarrow> pyval \<Rightarrow> 'w \<Rightarrow> (error + pyval) \<times> 'w" where
  "get_info env send ident d w =
     (case send \<lparr> meth = ''GET'', url = get_base_url env @ ''/'' @ ident @ ''/info'',
                    accept = None, params = PNone, payload = None \<rparr> w of
        (Inl e, w') \<Rightarrow> (Inl e, w')
      | (Inr result, w') \<Rightarrow>
          (if status_code result = 200 then
             (if resp_text result = []
              then Inr (PDict [(PStr ident, PStr ''No info found for the given ID.'')])
              else json_loads env (resp_text result))
           else raise_for_status result, w'))"

definition get_msa :: "env \<Rightarrow> 'w transport \<Rightarrow> string \<Rightarrow> pyval \<Rightarrow> 'w \<Rightarrow> (error + pyval) \<times> 'w" where
  "get_msa env send ident d w =
     (let headers = (if d = PBool True then ''application/json'' else ''text/plain'')
      in case send \<lparr> meth = ''GET'', url = get_base_url env @ ''/'' @ ident @ ''/msa'',
                       accept = Some headers, params = PNone, payload = None \<rparr> w of
           (Inl e, w') \<Rightarrow> (Inl e, w')
         | (Inr result, w') \<Rightarrow>
             (if status_code result = 200 then
                (if resp_text result = []
                 then Inr (PDict [(PStr ident, PStr ''No msa found for the given ID.'')])
                 else if d = PBool True then json_loads env (resp_text result)
                 else json_loads env (resp_text result))
              else raise_for_status result, w'))"

definition get_substrates :: "env \<Rightarrow> 'w transport \<Rightarrow> string \<Rightarrow> pyval \<Rightarrow> 'w \<Rightarrow> (error + pyval) \<times> 'w" where
  "get_substrates env send ident d w =
     (let headers = (if d = PBool True then ''application/json'' else ''text/plain'')
      in case send \<lparr> meth = ''GET'', url = get_base_url env @ ''/'' @ ident @ ''/substrate'',
                       accept = Some headers, params = PNone, payload = None \<rparr> w of
           (Inl e, w') \<Rightarrow> (Inl e, w')
         | (Inr result, w') \<Rightarrow>
             (if status_code result = 200 then
                (if resp_text result = []
                 then Inr (PDict [(PStr ident, PStr ''No substrate found for the given ID.'')])
                 else if d = PBool True then json_loads env (resp_text result)
                 else to_dataframe_from_json env (resp_text result))
              else raise_for_status result, w'))"

definition get_proteoforms :: "env \<Rightarrow> 'w transport \<Rightarrow> string \<Rightarrow> pyval \<Rightarrow> 'w \<Rightarrow> (error + pyval) \<times> 'w" where
  "get_proteoforms env send ident d w =
     (let headers = (if d = PBool True then ''application/json'' else ''text/plain'')
      in case send \<lparr> meth = ''GET'', url = get_base_url env @ ''/'' @ ident @ ''/proteoforms'',
                       accept = Some headers, params = PNone, payload = None \<rparr> w of
           (Inl e, w') \<Rightarrow> (Inl e, w')
         | (Inr result, w') \<Rightarrow>
             (if status_code result = 200 then
                (if resp_text result = [] \<or> resp_text result = ''[]''
                 then Inr (PDict [(PStr ident, PStr ''No proteoforms found for the given ID.'')])
                 else if d = PBool True then json_loads env (resp_text result)
                 else to_dataframe_from_json env (resp_text result))
              else raise_for_status result, w'))"

definition get_ptm_dependent_ppi :: "env \<Rightarrow> 'w transport \<Rightarrow> string \<Rightarrow> pyval \<Rightarrow> 'w \<Rightarrow> (error + pyval) \<times> 'w" where
  "get_ptm_dependent_ppi env send ident d w =
     (let headers = (if d = PBool True then ''application/json'' else ''text/plain'')
      in case send \<lparr> meth = ''GET'', url = get_base_url env @ ''/'' @ ident @ ''/ptmppi'',
                       accept = Some headers, params = PNone, payload = None \<rparr> w of
           (Inl e, w') \<Rightarrow> (Inl e, w')
         | (Inr result, w') \<Rightarrow>
             (if status_code result = 200 then
                (if resp_text result = [] \<or> resp_text result = ''[]''
                 then Inr (PDict [(PStr ident, PStr ''No ptmppi found for the given ID.'')])
                 else if d = PBool True then json_loads env (resp_text result)
                 else to_dataframe_from_json env (resp_text result))
              else raise_for_status result, w'))"

definition get_ppi_for_proteoforms :: "env \<Rightarrow> 'w transport \<Rightarrow> string \<Rightarrow> pyval \<Rightarrow> 'w \<Rightarrow> (error + pyval) \<times> 'w" where
  "get_ppi_for_proteoforms env send ident d w =
     (let headers = (if d = PBool True then ''application/json'' else ''text/plain'')
      in case send \<lparr> meth = ''GET'', url = get_base_url env @ ''/'' @ ident @ ''/proteoformsppi'',
                       accept = Some headers, params = PNone, payload = None \<rparr> w of
           (Inl e, w') \<Rightarrow> (Inl e, w')
         | (Inr result, w') \<Rightarrow>
             (if status_code result = 200 then
                (if resp_text result = [] \<or> resp_text result = ''[]''
                 then Inr (PDict [(PStr ident, PStr ''No proteoformsppi found for the given ID.'')])
                 else if d = PBool True then json_loads env (resp_text result)
                 else to_dataframe_from_json env (resp_text result))
              else raise_for_status result, w'))"

text \<open>
  The two list endpoints have no parameter named \<^verbatim>\<open>id\<close> (nor has \<^verbatim>\<open>search\<close>): the key of
  their \<^verbatim>\<open>{id: ...}\<close> is Python's built-in function \<^verbatim>\<open>id\<close>.
\<close>

definition get_ptm_enzymes_from_list :: "env \<Rightarrow> 'w transport \<Rightarrow> 'w invoker" where
  "get_ptm_enzymes_from_list env send items_arg d w =
     (case json_dumps env (PList items_arg) of
        Inl e \<Rightarrow> (Inl e, w)
      | Inr json_data \<Rightarrow>
          (let headers = (if d = PBool True then ''application/json'' else ''text/plain'')
           in case send \<lparr> meth = ''POST'', url = get_base_url env @ ''/batch_ptm_enzymes'',
                            accept = Some headers, params = PNone, payload = Some json_data \<rparr> w of
                (Inl e, w') \<Rightarrow> (Inl e, w')
              | (Inr result, w') \<Rightarrow>
                  (if status_code result = 200 then
                     (if resp_text result = [] \<or> resp_text result = ''[]''
                      then Inr (PDict [(PBuiltin ''id'', PStr ''No ptm enzymes found for the given ID.'')])
                      else if d = PBool True then json_loads env (resp_text result)
                      else to_dataframe_from_json env (resp_text result))
                   else raise_for_status result, w')))"

definition get_ptm_ppi_from_list :: "env \<Rightarrow> 'w transport \<Rightarrow> 'w invoker" where
  "get_ptm_ppi_from_list env send items_arg d w =
     (case json_dumps env (PList items_arg) of
        Inl e \<Rightarrow> (Inl e, w)
      | Inr json_data \<Rightarrow>
          (let headers = (if d = PBool True then ''application/json'' else ''text/plain'')
           in case send \<lparr> meth = ''POST'', url = get_base_url env @ ''/batch_ptm_ppi'',
                            accept = Some headers, params = PNone, payload = Some json_data \<rparr> w of
                (Inl e, w') \<Rightarrow> (Inl e, w')
              | (Inr result, w') \<Rightarrow>
                  (if status_code result = 200 then
                     (if resp_text result = [] \<or> resp_text result = ''[]''
                      then Inr (PDict [(PBuiltin ''id'', PStr ''No ptmppi found for the given ID.'')])
                      else if d = PBool True then json_loads env (resp_text result)
                      else to_dataframe_from_json env (resp_text result))
                   else raise_for_status result, w')))"

text \<open>
  For examples: a transport that answers every request with the same response and counts
  the requests, and an environment whose parser is the fragment of \<^verbatim>\<open>json.loads\<close> on
  the bodies \<^verbatim>\<open>[]\<close> and \<^verbatim>\<open>{}\<close> (it rejects every other text), whose CSV reader rejects
  every text, and whose serialiser stands for \<^verbatim>\<open>json.dumps\<close> on a list of sites without
  spelling the JSON text out.
\<close>

definition answering :: "response \<Rightarrow> nat transport" where
  "answering r req n = (Inr r, Suc n)"

definition example_env :: env where
  "example_env =
     \<lparr> host_url = ''https://research.bioinformatics.udel.edu/iptmnet/api'',
       selected_version = None,
       json_loads = (\<lambda>s. if s = ''[]'' then Inr (PList [])
                          else if s = ''{}'' then Inr (PDict []) else Inl JSONDecodeError),
       json_dumps = (\<lambda>v. Inr ''<sites>''),
       read_csv = (\<lambda>s. Inl ParserError) \<rparr>"

text \<open>
  Example batches: 2001 and 1001 copies of one site (three and two chunks), run against
  the scripted service with the call log on, and one run of \<^verbatim>\<open>get_ptm_enzymes_from_list\<close>
  against a service that answers every request with status 200 and the body \<^verbatim>\<open>[]\<close>.
\<close>

definition three_chunks :: "pyval list" where
  "three_chunks = replicate 2001 site"


definition list_run :: "(error + pyval) \<times> (error + pyval) list \<times> call list" where
  "list_run = get_data same_columns_pandas three_chunks (logged scripted) (PBool True)
     ([Inr (PList [PStr ''a'']), Inr (PList [PStr ''b'', PStr ''c'']), Inr (PList [PStr ''d''])], [])"

definition failing_run :: "(error + pyval) \<times> (error + pyval) list \<times> call list" where
  "failing_run = get_data same_columns_pandas three_chunks (logged scripted) (PBool True)
     ([Inr (PList [PStr ''a'']), Inl (HTTPError 500), Inr (PList [PStr ''d''])], [])"

definition empty_run :: "(error + pyval) \<times> (error + pyval) list \<times> call list" where
  "empty_run = get_data same_columns_pandas three_chunks (logged scripted) PNone
     ([Inr (PList []), Inr PNone, Inr (PDict [])], [])"

definition fallback_run :: "(error + pyval) \<times> (error + pyval) list \<times> call list" where
  "fallback_run = get_data same_columns_pandas three_chunks (logged scripted) PNone
     ([Inr (PList [PStr ''a'']), Inr (PList []), Inr (PStr ''z'')], [])"



section \<open>Small inputs\<close>

lemma logged_apply:
  "logged f chunk d (w, log) = (fst (f chunk d w), (snd (f chunk d w), log @ [(chunk, fst (f chunk d w))]))"
  by (simp add: logged_def split: prod.splits)

text \<open>
  C1. A list of at most 1000 sites is handed to the invoker as it is, in a single call,
  and the batch returns what that call returns (value or exception, and the same world
  after it): the log of the calls holds the one call on the whole list.
\<close>

theorem small_input_passthrough:
  "length sites \<le> 1000 \<Longrightarrow>
     get_data pd sites f d w = f sites d w \<and>
     get_data pd sites (logged f) d (w, []) =
       (fst (f sites d w), (snd (f sites d w), [(sites, fst (f sites d w))]))"
  by (simp add: get_data_def logged_apply)

theorem small_input_passthrough_witness:
  "length (replicate 3 site) \<le> 1000 \<and>
   get_data same_columns_pandas (replicate 3 site) scripted PNone [Inr (PList [PInt 7])] =
     (Inr (PList [PInt 7]), [])"
  using small_input_passthrough
    [of "replicate 3 site" same_columns_pandas scripted PNone "[Inr (PList [PInt 7])]"]
  by simp

section \<open>The example batches\<close>

lemma py_range_2001: "py_range 0 2001 1000 = [0, 1000, 2000]"
  by (simp add: py_range_def upt_rec)


lemma three_chunks_simps:
  "length three_chunks = 2001"
  "slice three_chunks 0 1000 = replicate 1000 site"
  "slice three_chunks 1000 2000 = replicate 1000 site"
  "slice three_chunks 2000 3000 = [site]"
  by (simp_all add: three_chunks_def py_range_def slice_def)


lemma list_run_eq:
  "list_run = (Inr (PList [PStr ''a'', PStr ''b'', PStr ''c'', PStr ''d'']), [],
     [(replicate 1000 site, Inr (PList [PStr ''a''])),
      (replicate 1000 site, Inr (PList [PStr ''b'', PStr ''c''])),
      ([site], Inr (PList [PStr ''d'']))])"
  by (simp add: list_run_def get_data_def three_chunks_simps py_range_2001 logged_def merge_results_def)

lemma failing_run_eq:
  "failing_run = (Inl (HTTPError 500), [Inr (PList [PStr ''d''])],
     [(replicate 1000 site, Inr (PList [PStr ''a''])),
      (replicate 1000 site, Inl (HTTPError 500))])"
  by (simp add: failing_run_def get_data_def three_chunks_simps py_range_2001 logged_def merge_results_def)

lemma empty_run_eq:
  "empty_run = (Inr (PTable [] []), [],
     [(replicate 1000 site, Inr (PList [])),
      (replicate 1000 site, Inr PNone),
      ([site], Inr (PDict []))])"
  by (simp add: empty_run_def get_data_def three_chunks_simps py_range_2001 logged_def merge_results_def)

lemma fallback_run_eq:
  "fallback_run = (Inr (PList [PList [PStr ''a''], PStr ''z'']), [],
     [(replicate 1000 site, Inr (PList [PStr ''a''])),
      (replicate 1000 site, Inr (PList [])),
      ([site], Inr (PStr ''z''))])"
  by (simp add: fallback_run_def get_data_def three_chunks_simps py_range_2001 logged_def merge_results_def)



section \<open>Partitioning and the calls of a batch\<close>

lemma py_range_1000: "py_range 0 n 1000 = map (\<lambda>k. k * 1000) [0..<(n + 999) div 1000]"
  by (simp add: py_range_def add.commute)

lemma chunks_of_eq:
  "chunks_of sites = map (\<lambda>k. take 1000 (drop (k * 1000) sites)) [0..<(length sites + 999) div 1000]"
  by (simp add: chunks_of_def py_range_1000 slice_def o_def)

lemma loop_logged:
  "batch_loop (logged f) d sites is acc (w, log) = (res, (w', log')) \<Longrightarrow>
   \<exists>es. log' = log @ es \<and> length es \<le> length is \<and>
        map fst es = map (\<lambda>i. slice sites i (i + 1000)) (take (length es) is) \<and>
        list_all call_ok (butlast es) \<and>
        (list_all call_ok es \<longrightarrow> length es = length is \<and> res = Inr (acc @ retained es)) \<and>
        (\<not> list_all call_ok es \<longrightarrow> (\<exists>e. call_error (last es) = Some e \<and> res = Inl e))"
proof (induction "is" arbitrary: acc w log)
  case Nil
  then show ?case by simp
next
  case (Cons i "is")
  define chunk where "chunk = slice sites i (i + 1000)"
  obtain r w1 where f: "f chunk d w = (r, w1)" by (cases "f chunk d w")
  have lg: "logged f chunk d (w, log) = (r, (w1, log @ [(chunk, r)]))"
    using f by (simp add: logged_def)
  show ?case
  proof (cases "call_error (chunk, r)")
    case (Some e)
    then have "res = Inl e \<and> log' = log @ [(chunk, r)]"
      using Cons.prems lg
      by (auto simp: call_error_def chunk_def Let_def split: sum.splits)
    then show ?thesis
      using Some by (intro exI[of _ "[(chunk, r)]"]) (simp add: call_ok_def chunk_def)
  next
    case None
    then obtain v b where v: "r = Inr v" "truthy v = Inr b"
      by (auto simp: call_error_def split: sum.splits)
    let ?acc = "if b then acc @ [v] else acc"
    have "batch_loop (logged f) d sites is ?acc (w1, log @ [(chunk, r)]) = (res, (w', log'))"
      using Cons.prems lg v by (simp add: chunk_def Let_def)
    from Cons.IH[OF this] obtain es where es:
      "log' = (log @ [(chunk, r)]) @ es" "length es \<le> length is"
      "map fst es = map (\<lambda>i. slice sites i (i + 1000)) (take (length es) is)"
      "list_all call_ok (butlast es)"
      "list_all call_ok es \<longrightarrow> length es = length is \<and> res = Inr (?acc @ retained es)"
      "\<not> list_all call_ok es \<longrightarrow> (\<exists>e. call_error (last es) = Some e \<and> res = Inl e)"
      by blast
    have ok: "call_ok (chunk, r)" using None by (simp add: call_ok_def)
    show ?thesis
      using es ok v
      by (intro exI[of _ "(chunk, r) # es"]) (auto simp: chunk_def)
  qed
qed

text \<open>What a logged multi-chunk batch does, in terms of its log.\<close>

lemma get_data_logged:
  assumes big: "1000 < length sites"
    and run: "get_data pd sites (logged f) d (w, []) = (res, (w', log))"
  shows "map fst log = take (length log) (chunks_of sites)"
    and "length log \<le> length (chunks_of sites)"
    and "list_all call_ok (butlast log)"
    and "list_all call_ok log \<Longrightarrow> map fst log = chunks_of sites"
    and "list_all call_ok log \<Longrightarrow> res = merge_results pd (retained log) d"
    and "\<not> list_all call_ok log \<Longrightarrow> \<exists>e. call_error (last log) = Some e \<and> res = Inl e"
proof -
  let ?is = "py_range 0 (length sites) 1000"
  obtain r0 w0 l0 where lp: "batch_loop (logged f) d sites ?is [] (w, []) = (r0, (w0, l0))"
    by (metis prod.exhaust)
  from loop_logged[OF lp] have es:
    "length l0 \<le> length ?is"
    "map fst l0 = map (\<lambda>i. slice sites i (i + 1000)) (take (length l0) ?is)"
    "list_all call_ok (butlast l0)"
    "list_all call_ok l0 \<longrightarrow> length l0 = length ?is \<and> r0 = Inr (retained l0)"
    "\<not> list_all call_ok l0 \<longrightarrow> (\<exists>e. call_error (last l0) = Some e \<and> r0 = Inl e)"
    by auto
  have gd: "get_data pd sites (logged f) d (w, []) =
        (case r0 of Inl e \<Rightarrow> (Inl e, (w0, l0)) | Inr acs \<Rightarrow> (merge_results pd acs d, (w0, l0)))"
    using big lp by (simp add: get_data_def split: sum.splits)
  have l0: "log = l0" using gd run by (auto split: sum.splits)
  show "map fst log = take (length log) (chunks_of sites)"
    using es(2) by (simp add: l0 chunks_of_def take_map)
  show "length log \<le> length (chunks_of sites)"
    using es(1) by (simp add: l0 chunks_of_def)
  show "list_all call_ok (butlast log)" using es(3) by (simp add: l0)
  show "map fst log = chunks_of sites" if "list_all call_ok log"
    using that es(2,4) by (simp add: l0 chunks_of_def)
  show "res = merge_results pd (retained log) d" if "list_all call_ok log"
    using that es(4) gd run by (simp add: l0)
  show "\<exists>e. call_error (last log) = Some e \<and> res = Inl e" if "\<not> list_all call_ok log"
    using that es(5) gd run by (auto simp: l0)
qed

text \<open>The log is only an observer: a logged batch returns what the batch returns and
  leaves the same world.\<close>

lemma batch_loop_logged_same:
  "fst (batch_loop (logged f) d sites is acc (w, log)) = fst (batch_loop f d sites is acc w) \<and>
   fst (snd (batch_loop (logged f) d sites is acc (w, log))) = snd (batch_loop f d sites is acc w)"
proof (induction "is" arbitrary: acc w log)
  case Nil
  then show ?case by simp
next
  case (Cons i "is")
  obtain r w1 where f: "f (slice sites i (i + 1000)) d w = (r, w1)"
    by (cases "f (slice sites i (i + 1000)) d w")
  show ?case
  proof (cases r)
    case (Inl e)
    then show ?thesis using f by (simp add: logged_def)
  next
    case (Inr v)
    then show ?thesis using f Cons.IH by (cases "truthy v") (simp_all add: logged_def)
  qed
qed

lemma get_data_logged_same:
  "fst (get_data pd sites (logged f) d (w, log)) = fst (get_data pd sites f d w) \<and>
   fst (snd (get_data pd sites (logged f) d (w, log))) = snd (get_data pd sites f d w)"
proof (cases "length sites \<le> 1000")
  case True
  then show ?thesis by (simp add: get_data_def logged_apply)
next
  case False
  let ?is = "py_range 0 (length sites) 1000"
  obtain r w1 where u: "batch_loop f d sites ?is [] w = (r, w1)"
    by (cases "batch_loop f d sites ?is [] w")
  obtain r' w1' l' where l: "batch_loop (logged f) d sites ?is [] (w, log) = (r', (w1', l'))"
    by (metis prod.exhaust)
  have "r' = r \<and> w1' = w1"
    using batch_loop_logged_same[of f d sites ?is "[]" w log] u l by simp
  then show ?thesis
    using False u l by (cases r) (simp_all add: get_data_def)
qed

lemma concat_take_drop:
  "concat (map (\<lambda>k. take c (drop (k * c) xs)) [0..<m]) = take (m * c) xs"
proof (induction m)
  case 0
  then show ?case by simp
next
  case (Suc m)
  have "take (m * c) xs @ take c (drop (m * c) xs) = take (m * c + c) xs"
    by (simp add: take_add)
  with Suc show ?case by (simp add: add.commute)
qed

lemma ceil_div_covers: "(n::nat) \<le> (n + 999) div 1000 * 1000"
proof -
  have "n + 999 < ((n + 999) div 1000 + 1) * 1000"
    using div_less_iff_less_mult[of 1000 "n + 999" "(n + 999) div 1000 + 1"] by simp
  then show ?thesis by simp
qed

lemma below_ceil_div: "Suc k < (n + 999) div 1000 \<Longrightarrow> k * 1000 + 1000 < (n::nat)"
proof -
  assume "Suc k < (n + 999) div 1000"
  then have "Suc (Suc k) \<le> (n + 999) div 1000" by simp
  then have "Suc (Suc k) * 1000 \<le> n + 999"
    using less_eq_div_iff_mult_less_eq[of 1000 "Suc (Suc k)" "n + 999"] by simp
  then show ?thesis by simp
qed

lemma ceil_div_cases:
  fixes n :: nat
  shows "(n + 999) div 1000 = (if n mod 1000 = 0 then n div 1000 else Suc (n div 1000))"
proof -
  define q where "q = n div 1000"
  define r where "r = n mod 1000"
  have n: "n = q * 1000 + r" and r: "r < 1000" by (simp_all add: q_def r_def)
  show ?thesis
  proof (cases "r = 0")
    case True
    then have "(n + 999) div 1000 = q" using n by simp
    then show ?thesis using True by (simp add: q_def r_def)
  next
    case False
    then obtain r' where r': "r = Suc r'" by (cases r) auto
    have "n + 999 = r' + Suc q * 1000" using n r' by simp
    moreover have "r' < 1000" using r r' by simp
    ultimately have "(n + 999) div 1000 = Suc q" by simp
    then show ?thesis using False by (simp add: q_def r_def)
  qed
qed

lemma last_chunk_size:
  fixes n :: nat
  assumes "0 < n"
  shows "min 1000 (n - ((n + 999) div 1000 - 1) * 1000) =
         (if n mod 1000 = 0 then 1000 else n mod 1000)"
proof -
  define q where "q = n div 1000"
  define r where "r = n mod 1000"
  have n: "n = q * 1000 + r" and r: "r < 1000" by (simp_all add: q_def r_def)
  show ?thesis
  proof (cases "r = 0")
    case True
    then have "0 < q" using assms n by (cases q) auto
    then obtain q' where q': "q = Suc q'" by (cases q) auto
    have "(n + 999) div 1000 = q" using True ceil_div_cases[of n] by (simp add: q_def r_def)
    then have "n - ((n + 999) div 1000 - 1) * 1000 = 1000" using n True q' by simp
    then show ?thesis using True by (simp add: r_def)
  next
    case False
    have "(n + 999) div 1000 = Suc q" using False ceil_div_cases[of n] by (simp add: q_def r_def)
    then have "n - ((n + 999) div 1000 - 1) * 1000 = r" using n by simp
    then show ?thesis using False r by (simp add: r_def)
  qed
qed

lemma concat_chunks_of: "concat (chunks_of sites) = sites"
  using ceil_div_covers[of "length sites"] by (simp add: chunks_of_eq concat_take_drop)

lemma length_chunks_of: "length (chunks_of sites) = (length sites + 999) div 1000"
  by (simp add: chunks_of_eq)

lemma nth_chunks_of:
  "k < length (chunks_of sites) \<Longrightarrow> chunks_of sites ! k = take 1000 (drop (k * 1000) sites)"
  by (simp add: chunks_of_eq)

lemma length_full_chunk:
  assumes "Suc k < length (chunks_of sites)"
  shows "length (chunks_of sites ! k) = 1000"
proof -
  from assms have "k * 1000 + 1000 < length sites"
    by (simp add: length_chunks_of below_ceil_div)
  moreover have "k < length (chunks_of sites)" using assms by simp
  ultimately show ?thesis by (simp add: nth_chunks_of)
qed

lemma length_last_chunk:
  assumes "sites \<noteq> []"
  shows "length (last (chunks_of sites)) =
         (if length sites mod 1000 = 0 then 1000 else length sites mod 1000)"
proof -
  let ?n = "length sites"
  let ?m = "(?n + 999) div 1000"
  have n: "0 < ?n" using assms by simp
  have "?n \<le> ?m * 1000" by (rule ceil_div_covers)
  with n have m: "0 < ?m" by (cases ?m) auto
  then have ne: "chunks_of sites \<noteq> []" using length_chunks_of[of sites] by auto
  have "last (chunks_of sites) = chunks_of sites ! (?m - 1)"
    using ne by (simp add: last_conv_nth length_chunks_of)
  also have "\<dots> = take 1000 (drop ((?m - 1) * 1000) sites)"
    using m by (simp add: nth_chunks_of length_chunks_of)
  finally have "length (last (chunks_of sites)) = min 1000 (?n - (?m - 1) * 1000)"
    by (simp add: min.commute)
  then show ?thesis using last_chunk_size[OF n] by simp
qed

text \<open>
  A batch of more than 1000 sites in which no call raises and every result has a truth
  value calls the invoker on exactly the chunks of the input, once each and in input
  order: the chunks are the consecutive slices of 1000 sites, the last one holding the
  remainder (1000 when the remainder is zero), and their concatenation is the input.
  A result that is a DataFrame has no truth value, so this does not cover the tabular
  mode.
\<close>

lemma batch_partition:
  assumes "1000 < length sites"
    and "get_data pd sites (logged f) d (w, []) = (res, (w', log))"
    and "list_all call_ok log"
  shows "map fst log = chunks_of sites \<and>
         concat (map fst log) = sites \<and>
         length log = (length sites + 999) div 1000 \<and>
         (\<forall>k < length log. fst (log ! k) = take 1000 (drop (k * 1000) sites)) \<and>
         (\<forall>k. Suc k < length log \<longrightarrow> length (fst (log ! k)) = 1000) \<and>
         length (fst (last log)) =
           (if length sites mod 1000 = 0 then 1000 else length sites mod 1000)"
proof -
  have cs: "map fst log = chunks_of sites"
    using get_data_logged(4)[OF assms] .
  have len: "length log = length (chunks_of sites)"
    using cs by (metis length_map)
  have nth: "fst (log ! k) = chunks_of sites ! k" if "k < length log" for k
    using that cs by (metis nth_map)
  have ne: "sites \<noteq> []" using assms(1) by auto
  have "0 < length (chunks_of sites)"
    using ne concat_chunks_of[of sites] by (cases "chunks_of sites") auto
  then have lne: "log \<noteq> []" using len by auto
  have last: "fst (last log) = last (chunks_of sites)"
    using cs lne by (metis last_map)
  show ?thesis
    using cs len nth last
    by (simp add: concat_chunks_of length_chunks_of nth_chunks_of length_full_chunk
        length_last_chunk[OF ne])
qed

lemma batch_partition_example:
  "1000 < length three_chunks \<and> list_all call_ok (snd (snd list_run)) \<and>
   concat (map fst (snd (snd list_run))) = three_chunks \<and>
   length (snd (snd list_run)) = 3 \<and>
   map (\<lambda>c. length (fst c)) (snd (snd list_run)) = [1000, 1000, 1]"
proof -
  have len: "1000 < length three_chunks" by (simp add: three_chunks_simps)
  have ok: "list_all call_ok (snd (snd list_run))"
    by (simp add: list_run_eq call_ok_def call_error_def)
  have run: "get_data same_columns_pandas three_chunks (logged scripted) (PBool True)
      ([Inr (PList [PStr ''a'']), Inr (PList [PStr ''b'', PStr ''c'']), Inr (PList [PStr ''d''])], []) =
      (fst list_run, fst (snd list_run), snd (snd list_run))"
    by (simp add: list_run_def)
  note th = batch_partition[OF len run ok]
  have "concat (map fst (snd (snd list_run))) = three_chunks" using th by blast
  moreover have "length (snd (snd list_run)) = 3" using th by (simp add: three_chunks_simps)
  moreover have "map (\<lambda>c. length (fst c)) (snd (snd list_run)) = [1000, 1000, 1]"
    by (simp add: list_run_eq)
  ultimately show ?thesis using len ok by blast
qed

section \<open>Merging\<close>


lemma retained_falsy:
  "\<forall>c\<in>set log. \<exists>v. snd c = Inr v \<and> truthy v = Inr False \<Longrightarrow> retained log = []"
  by (induction log) auto

lemma falsy_ok:
  "\<forall>c\<in>set log. \<exists>v. snd c = Inr v \<and> truthy v = Inr False \<Longrightarrow> list_all call_ok log"
  by (induction log) (auto simp: call_ok_def call_error_def)

lemma flatten_loop_concat:
  "flatten_loop chunks flattened =
     flattened @ concat (map (\<lambda>v. case v of PList xs \<Rightarrow> xs | _ \<Rightarrow> [v]) chunks)"
proof (induction chunks arbitrary: flattened)
  case Nil
  then show ?case by simp
next
  case (Cons c cs)
  then show ?case by (cases c) simp_all
qed

lemma merge_results_True:
  "merge_results pd all_chunks (PBool True) =
     Inr (PList (concat (map (\<lambda>v. case v of PList xs \<Rightarrow> xs | _ \<Rightarrow> [v]) all_chunks)))"
  by (cases all_chunks) (simp_all add: merge_results_def flatten_loop_concat)

lemma merge_results_fallback:
  "d \<noteq> PBool True \<Longrightarrow> \<not> is_table first \<Longrightarrow> \<not> is_dict first \<Longrightarrow>
     merge_results pd (first # rest) d = Inr (PList (first # rest))"
  by (cases first) (simp_all add: merge_results_def)

text \<open>
  C4. With \<^verbatim>\<open>dict=True\<close>, a multi-chunk batch returns one flat list: the retained results
  in chunk order, a list spliced in element by element, anything else as one element.
\<close>

theorem list_merge:
  assumes "1000 < length sites"
    and "get_data pd sites (logged f) (PBool True) (w, []) = (res, (w', log))"
    and "list_all call_ok log"
  shows "res = Inr (PList (concat (map (\<lambda>v. case v of PList xs \<Rightarrow> xs | _ \<Rightarrow> [v]) (retained log))))"
  using get_data_logged(5)[OF assms] by (simp add: merge_results_True)

theorem list_merge_witness:
  "1000 < length three_chunks \<and> list_all call_ok (snd (snd list_run)) \<and>
   fst list_run = Inr (PList [PStr ''a'', PStr ''b'', PStr ''c'', PStr ''d''])"
proof -
  have len: "1000 < length three_chunks" by (simp add: three_chunks_simps)
  have ok: "list_all call_ok (snd (snd list_run))"
    by (simp add: list_run_eq call_ok_def call_error_def)
  have run: "get_data same_columns_pandas three_chunks (logged scripted) (PBool True)
      ([Inr (PList [PStr ''a'']), Inr (PList [PStr ''b'', PStr ''c'']), Inr (PList [PStr ''d''])], []) =
      (fst list_run, fst (snd list_run), snd (snd list_run))"
    by (simp add: list_run_def)
  have r: "retained (snd (snd list_run)) =
      [PList [PStr ''a''], PList [PStr ''b'', PStr ''c''], PList [PStr ''d'']]"
    by (simp add: list_run_eq)
  have "fst list_run = Inr (PList [PStr ''a'', PStr ''b'', PStr ''c'', PStr ''d''])"
    using list_merge[OF len run ok] by (simp add: r)
  then show ?thesis using len ok by blast
qed

text \<open>
  C7. When \<^verbatim>\<open>dict\<close> is not \<^verbatim>\<open>True\<close> and the first retained result is neither a DataFrame
  nor a dict, the merge does not raise: the batch returns the list of the retained
  results as it is.
\<close>

theorem merge_fallback:
  assumes "1000 < length sites"
    and "get_data pd sites (logged f) d (w, []) = (res, (w', log))"
    and "list_all call_ok log"
    and "d \<noteq> PBool True"
    and "retained log = first # rest"
    and "\<not> is_table first" and "\<not> is_dict first"
  shows "res = Inr (PList (retained log))"
  using get_data_logged(5)[OF assms(1,2,3)] assms(4-7) by (simp add: merge_results_fallback)

theorem merge_fallback_witness:
  "1000 < length three_chunks \<and> list_all call_ok (snd (snd fallback_run)) \<and>
   retained (snd (snd fallback_run)) = [PList [PStr ''a''], PStr ''z''] \<and>
   fst fallback_run = Inr (PList [PList [PStr ''a''], PStr ''z''])"
proof -
  have len: "1000 < length three_chunks" by (simp add: three_chunks_simps)
  have ok: "list_all call_ok (snd (snd fallback_run))"
    by (simp add: fallback_run_eq call_ok_def call_error_def)
  have run: "get_data same_columns_pandas three_chunks (logged scripted) PNone
      ([Inr (PList [PStr ''a'']), Inr (PList []), Inr (PStr ''z'')], []) =
      (fst fallback_run, fst (snd fallback_run), snd (snd fallback_run))"
    by (simp add: fallback_run_def)
  have r: "retained (snd (snd fallback_run)) = [PList [PStr ''a''], PStr ''z'']"
    by (simp add: fallback_run_eq)
  have "fst fallback_run = Inr (PList (retained (snd (snd fallback_run))))"
    by (rule merge_fallback[OF len run ok _ r]) simp_all
  then show ?thesis using len ok r by simp
qed

text \<open>
  When every chunk of a multi-chunk batch returns a value whose truth value is false
  (\<^verbatim>\<open>None\<close>, an empty list, an empty dict and the like), the batch raises nothing and
  returns an empty DataFrame for \<^verbatim>\<open>dict=None\<close> or \<^verbatim>\<open>dict=False\<close>, and the empty list for
  \<^verbatim>\<open>dict=True\<close>. A DataFrame without rows is not such a value.
\<close>

lemma all_falsy_batch:
  assumes "1000 < length sites"
    and "get_data pd sites (logged f) d (w, []) = (res, (w', log))"
    and "\<forall>c\<in>set log. \<exists>v. snd c = Inr v \<and> truthy v = Inr False"
  shows "(d = PNone \<or> d = PBool False \<longrightarrow> res = Inr (PTable [] [])) \<and>
         (d = PBool True \<longrightarrow> res = Inr (PList []))"
proof -
  have "res = merge_results pd [] d"
    using get_data_logged(5)[OF assms(1,2) falsy_ok[OF assms(3)]] retained_falsy[OF assms(3)]
    by simp
  then show ?thesis by (auto simp: merge_results_def)
qed

lemma all_falsy_batch_example:
  "1000 < length three_chunks \<and>
   map snd (snd (snd empty_run)) = [Inr (PList []), Inr PNone, Inr (PDict [])] \<and>
   fst empty_run = Inr (PTable [] [])"
proof -
  have len: "1000 < length three_chunks" by (simp add: three_chunks_simps)
  have falsy: "\<forall>c\<in>set (snd (snd empty_run)). \<exists>v. snd c = Inr v \<and> truthy v = Inr False"
    by (simp add: empty_run_eq)
  have run: "get_data same_columns_pandas three_chunks (logged scripted) PNone
      ([Inr (PList []), Inr PNone, Inr (PDict [])], []) =
      (fst empty_run, fst (snd empty_run), snd (snd empty_run))"
    by (simp add: empty_run_def)
  have "fst empty_run = Inr (PTable [] [])"
    using all_falsy_batch[OF len run falsy] by simp
  moreover have "map snd (snd (snd empty_run)) = [Inr (PList []), Inr PNone, Inr (PDict [])]"
    by (simp add: empty_run_eq)
  ultimately show ?thesis using len by blast
qed

text \<open>
  C8. If the call on chunk \<open>k\<close> of a multi-chunk batch raises, the batch raises that same
  exception; the call on chunk \<open>k\<close> is the last call made (no retry, no later chunk), and
  the calls made are those on the first \<open>k + 1\<close> chunks, in order.
\<close>

theorem fail_fast:
  assumes "1000 < length sites"
    and "get_data pd sites (logged f) d (w, []) = (res, (w', log))"
    and "k < length log"
    and "snd (log ! k) = Inl e"
  shows "res = Inl e \<and> length log = Suc k \<and> map fst log = take (Suc k) (chunks_of sites)"
proof -
  have bad: "\<not> call_ok (log ! k)"
    using assms(4) by (simp add: call_ok_def call_error_def)
  have "list_all call_ok (butlast log)" using get_data_logged(3)[OF assms(1,2)] .
  then have "call_ok (log ! i)" if "i < length log - 1" for i
    using that by (simp add: list_all_length nth_butlast)
  with bad have "\<not> k < length log - 1" by blast
  with assms(3) have k: "length log = Suc k" by arith
  then have "log \<noteq> []" by auto
  then have last: "last log = log ! k"
    using k by (simp add: last_conv_nth)
  have "\<not> list_all call_ok log"
    unfolding list_all_length using bad assms(3) by blast
  from get_data_logged(6)[OF assms(1,2) this] obtain e' where
    e': "call_error (last log) = Some e'" "res = Inl e'" by blast
  have "call_error (log ! k) = Some e"
    using assms(4) by (simp add: call_error_def)
  with e' last have "res = Inl e" by simp
  moreover have "map fst log = take (Suc k) (chunks_of sites)"
    using get_data_logged(1)[OF assms(1,2)] unfolding k .
  ultimately show ?thesis using k by blast
qed

theorem fail_fast_witness:
  "1000 < length three_chunks \<and>
   snd (snd (snd failing_run) ! 1) = Inl (HTTPError 500) \<and>
   fst failing_run = Inl (HTTPError 500) \<and>
   length (snd (snd failing_run)) = 2 \<and>
   fst (snd failing_run) = [Inr (PList [PStr ''d''])]"
proof -
  have len: "1000 < length three_chunks" by (simp add: three_chunks_simps)
  have run: "get_data same_columns_pandas three_chunks (logged scripted) (PBool True)
      ([Inr (PList [PStr ''a'']), Inl (HTTPError 500), Inr (PList [PStr ''d''])], []) =
      (fst failing_run, fst (snd failing_run), snd (snd failing_run))"
    by (simp add: failing_run_def)
  have k: "1 < length (snd (snd failing_run))" by (simp add: failing_run_eq)
  have raised: "snd (snd (snd failing_run) ! 1) = Inl (HTTPError 500)"
    by (simp add: failing_run_eq)
  have "fst failing_run = Inl (HTTPError 500) \<and> length (snd (snd failing_run)) = Suc 1"
    using fail_fast[OF len run k raised] by blast
  moreover have "fst (snd failing_run) = [Inr (PList [PStr ''d''])]"
    by (simp add: failing_run_eq)
  ultimately show ?thesis using len raised by simp
qed

section \<open>Merging dicts, sentinels and DataFrames\<close>













text \<open>
  C3. Three chunks that return DataFrames of 400, 600 and 1 rows, with \<^verbatim>\<open>dict=None\<close>: the
  truth test \<^verbatim>\<open>if chunk_result:\<close> of the first DataFrame raises \<^verbatim>\<open>ValueError\<close>, so the
  batch raises it, whatever \<^verbatim>\<open>pd.concat\<close> would do; the second and third chunk are never
  requested (their prepared responses are still unused).
\<close>

theorem table_batch_raises:
  "get_data pd three_chunks scripted PNone
     [Inr (PTable cols (replicate 400 row)), Inr (PTable cols (replicate 600 row)),
      Inr (PTable cols [row])] =
   (Inl ValueError, [Inr (PTable cols (replicate 600 row)), Inr (PTable cols [row])])"
  by (simp add: get_data_def three_chunks_simps py_range_2001)

text \<open>
  C2. The same batch with the call log on. The 2001 sites make three chunks, of 1000, 1000
  and 1 sites, but the invoker is called on the first chunk only: the truth test of the
  DataFrame it returns raises \<^verbatim>\<open>ValueError\<close> and ends the loop, whatever \<^verbatim>\<open>dict\<close> is. So in
  the tabular mode a batch does not call the invoker once per chunk.
\<close>

theorem table_batch_single_call:
  "chunks_of three_chunks = [replicate 1000 site, replicate 1000 site, [site]] \<and>
   get_data pd three_chunks (logged scripted) d
     ([Inr (PTable cols (replicate 400 row)), Inr (PTable cols (replicate 600 row)),
       Inr (PTable cols [row])], []) =
   (Inl ValueError,
    [Inr (PTable cols (replicate 600 row)), Inr (PTable cols [row])],
    [(replicate 1000 site, Inr (PTable cols (replicate 400 row)))])"
  by (simp add: chunks_of_def get_data_def three_chunks_simps py_range_2001 logged_def)

text \<open>
  C6. Three chunks that each return a DataFrame without rows, the empty result of the
  tabular mode: the batch does not return an empty DataFrame, it raises \<^verbatim>\<open>ValueError\<close> at
  the truth test of the first result, whatever \<^verbatim>\<open>dict\<close> is, and makes no further call.
\<close>

theorem empty_table_batch_raises:
  "get_data pd three_chunks (logged scripted) d
     ([Inr (PTable cols []), Inr (PTable cols []), Inr (PTable cols [])], []) =
   (Inl ValueError,
    [Inr (PTable cols []), Inr (PTable cols [])],
    [(replicate 1000 site, Inr (PTable cols []))])"
  by (simp add: get_data_def three_chunks_simps py_range_2001 logged_def)

section \<open>Empty responses\<close>

text \<open>
  When the transport answers with status 200 and an empty body, every endpoint returns,
  without raising, a one-entry dict whose value is that endpoint's
  ``No ... found for the given ID.'' message; in the six endpoints that take an
  identifier, the key is that identifier. The body \<^verbatim>\<open>[]\<close> is treated like the empty body
  by \<^verbatim>\<open>get_proteoforms\<close>, \<^verbatim>\<open>get_ptm_dependent_ppi\<close>, \<^verbatim>\<open>get_ppi_for_proteoforms\<close> and the two
  list endpoints. (The list endpoints first serialise their argument, which is assumed
  to succeed.)
\<close>

lemma empty_body_sentinel:
  assumes send: "\<And>req. send req w = (Inr r, w')"
    and ok: "status_code r = 200"
    and dumps: "json_dumps env (PList sites) = Inr js"
  shows
    "(resp_text r = [] \<longrightarrow>
        get_info env send ident d w =
          (Inr (PDict [(PStr ident, PStr ''No info found for the given ID.'')]), w') \<and>
        get_msa env send ident d w =
          (Inr (PDict [(PStr ident, PStr ''No msa found for the given ID.'')]), w') \<and>
        get_substrates env send ident d w =
          (Inr (PDict [(PStr ident, PStr ''No substrate found for the given ID.'')]), w') \<and>
        (\<exists>k. search env send search_term term_type role ptm_list organism_list d w =
          (Inr (PDict [(k, PStr ''No data found for the given ID.'')]), w'))) \<and>
     (resp_text r = [] \<or> resp_text r = ''[]'' \<longrightarrow>
        get_proteoforms env send ident d w =
          (Inr (PDict [(PStr ident, PStr ''No proteoforms found for the given ID.'')]), w') \<and>
        get_ptm_dependent_ppi env send ident d w =
          (Inr (PDict [(PStr ident, PStr ''No ptmppi found for the given ID.'')]), w') \<and>
        get_ppi_for_proteoforms env send ident d w =
          (Inr (PDict [(PStr ident, PStr ''No proteoformsppi found for the given ID.'')]), w') \<and>
        (\<exists>k. get_ptm_enzymes_from_list env send sites d w =
          (Inr (PDict [(k, PStr ''No ptm enzymes found for the given ID.'')]), w')) \<and>
        (\<exists>k. get_ptm_ppi_from_list env send sites d w =
          (Inr (PDict [(k, PStr ''No ptmppi found for the given ID.'')]), w')))"
proof (intro conjI impI)
  assume e: "resp_text r = []"
  show "get_info env send ident d w =
          (Inr (PDict [(PStr ident, PStr ''No info found for the given ID.'')]), w')"
    by (simp add: get_info_def send ok e)
  show "get_msa env send ident d w =
          (Inr (PDict [(PStr ident, PStr ''No msa found for the given ID.'')]), w')"
    by (simp add: get_msa_def send ok e)
  show "get_substrates env send ident d w =
          (Inr (PDict [(PStr ident, PStr ''No substrate found for the given ID.'')]), w')"
    by (simp add: get_substrates_def send ok e)
  show "\<exists>k. search env send search_term term_type role ptm_list organism_list d w =
          (Inr (PDict [(k, PStr ''No data found for the given ID.'')]), w')"
    by (simp add: search_def send ok e)
next
  assume e: "resp_text r = [] \<or> resp_text r = ''[]''"
  show "get_proteoforms env send ident d w =
          (Inr (PDict [(PStr ident, PStr ''No proteoforms found for the given ID.'')]), w')"
    using e by (simp add: get_proteoforms_def send ok)
  show "get_ptm_dependent_ppi env send ident d w =
          (Inr (PDict [(PStr ident, PStr ''No ptmppi found for the given ID.'')]), w')"
    using e by (simp add: get_ptm_dependent_ppi_def send ok)
  show "get_ppi_for_proteoforms env send ident d w =
          (Inr (PDict [(PStr ident, PStr ''No proteoformsppi found for the given ID.'')]), w')"
    using e by (simp add: get_ppi_for_proteoforms_def send ok)
  show "\<exists>k. get_ptm_enzymes_from_list env send sites d w =
          (Inr (PDict [(k, PStr ''No ptm enzymes found for the given ID.'')]), w')"
    using e by (simp add: get_ptm_enzymes_from_list_def send ok dumps)
  show "\<exists>k. get_ptm_ppi_from_list env send sites d w =
          (Inr (PDict [(k, PStr ''No ptmppi found for the given ID.'')]), w')"
    using e by (simp add: get_ptm_ppi_from_list_def send ok dumps)
qed

lemma empty_body_sentinel_example:
  "status_code \<lparr> status_code = 200, resp_text = [] \<rparr> = 200 \<and>
   json_dumps example_env (PList [site]) = Inr ''<sites>'' \<and>
   get_info example_env (answering \<lparr> status_code = 200, resp_text = [] \<rparr>) ''Q15796'' PNone 0 =
     (Inr (PDict [(PStr ''Q15796'', PStr ''No info found for the given ID.'')]), 1) \<and>
   get_proteoforms example_env (answering \<lparr> status_code = 200, resp_text = [] \<rparr>) ''Q15796'' PNone 0 =
     (Inr (PDict [(PStr ''Q15796'', PStr ''No proteoforms found for the given ID.'')]), 1)"
proof -
  let ?r = "\<lparr> status_code = 200, resp_text = [] \<rparr>"
  have send: "\<And>req. answering ?r req 0 = (Inr ?r, 1)" by (simp add: answering_def)
  have ok: "status_code ?r = 200" by simp
  have dumps: "json_dumps example_env (PList [site]) = Inr ''<sites>''"
    by (simp add: example_env_def)
  note th = empty_body_sentinel[of "answering ?r" 0 ?r 1 example_env "[site]" "''<sites>''"
      "''Q15796''" PNone "''SMAD2''" PNone PNone None None, OF send ok dumps]
  from th show ?thesis using dumps by simp
qed

text \<open>
  C9. With status 200 and the body \<^verbatim>\<open>[]\<close>, the endpoints \<^verbatim>\<open>get_info\<close>, \<^verbatim>\<open>get_msa\<close>,
  \<^verbatim>\<open>get_substrates\<close> and \<^verbatim>\<open>search\<close> return no sentinel: they test the body against the
  empty string only, unlike their five siblings, and hand \<^verbatim>\<open>[]\<close> to the parser, whose
  result (or exception) they return. And with the empty body, the key of the sentinel of
  \<^verbatim>\<open>search\<close> and of \<^verbatim>\<open>get_ptm_enzymes_from_list\<close> is the built-in function \<^verbatim>\<open>id\<close>, not
  anything that was requested.
\<close>

theorem empty_list_body_parsed:
  "get_info env (answering \<lparr> status_code = 200, resp_text = ''[]'' \<rparr>) ident d n =
     (json_loads env ''[]'', Suc n) \<and>
   get_msa env (answering \<lparr> status_code = 200, resp_text = ''[]'' \<rparr>) ident d n =
     (json_loads env ''[]'', Suc n) \<and>
   get_substrates env (answering \<lparr> status_code = 200, resp_text = ''[]'' \<rparr>) ident d n =
     (if d = PBool True then json_loads env ''[]'' else read_csv env ''[]'', Suc n) \<and>
   search env (answering \<lparr> status_code = 200, resp_text = ''[]'' \<rparr>)
       search_term term_type role ptm_list organism_list d n =
     (if d = PBool True then json_loads env ''[]'' else read_csv env ''[]'', Suc n) \<and>
   search env (answering \<lparr> status_code = 200, resp_text = [] \<rparr>)
       search_term term_type role ptm_list organism_list d n =
     (Inr (PDict [(PBuiltin ''id'', PStr ''No data found for the given ID.'')]), Suc n) \<and>
   get_ptm_enzymes_from_list env (answering \<lparr> status_code = 200, resp_text = [] \<rparr>) sites d n =
     (case json_dumps env (PList sites) of
        Inl e \<Rightarrow> (Inl e, n)
      | Inr js \<Rightarrow>
          (Inr (PDict [(PBuiltin ''id'', PStr ''No ptm enzymes found for the given ID.'')]), Suc n))"
  by (simp add: get_info_def get_msa_def get_substrates_def search_def
      get_ptm_enzymes_from_list_def to_dataframe_from_json_def answering_def
      split: sum.splits)

text \<open>
  In the example environment, whose parser reads \<^verbatim>\<open>[]\<close> as \<^verbatim>\<open>json.loads\<close> does,
  \<^verbatim>\<open>get_info\<close> returns the empty list for the identifier \<^verbatim>\<open>Q15796\<close>.
\<close>

lemma get_info_empty_list_example:
  "get_info example_env (answering \<lparr> status_code = 200, resp_text = ''[]'' \<rparr>) ''Q15796'' PNone 0 =
     (Inr (PList []), 1) \<and>
   fst (get_info example_env (answering \<lparr> status_code = 200, resp_text = ''[]'' \<rparr>) ''Q15796'' PNone 0)
     \<noteq> Inr (PDict [(PStr ''Q15796'', PStr ''No info found for the given ID.'')])"
  by (simp add: get_info_def answering_def example_env_def)

end
